theory Spec2Isabelle
  imports Complex_Main "HOL-Library.Char_ord" "HOL-Library.List_Lexorder" "HOL-Library.Multiset"
begin

section \<open>Errors\<close>

text \<open>
  Every \<^verbatim>\<open>raise\<close> of \<^verbatim>\<open>fermipy/catalog.py\<close> and every exception of the
  libraries it calls is a value. \<open>Exception msg\<close> is a plain
  \<^verbatim>\<open>raise Exception(msg)\<close> with its message; the others are named after the Python
  exception class.
\<close>

datatype error =
    Exception string
  | KeyError string
  | IndexError
  | OSError
  | TableMergeError
  | ValueError
  | AttributeError
  | TypeError

section \<open>Strings and paths\<close>

text \<open>\<^verbatim>\<open>str.rfind(c)\<close> for a one-character needle: the highest index, or \<open>-1\<close>.\<close>

definition rfind :: "string \<Rightarrow> char \<Rightarrow> int" where
  "rfind p c =
     (if c \<in> set p then int (length p) - 1 - int (length (takeWhile (\<lambda>x. x \<noteq> c) (rev p)))
      else - 1)"

text \<open>
  \<^verbatim>\<open>os.path.splitext\<close> (posix): the extension starts at the last dot of the last path
  component, unless only dots precede it in that component.
\<close>

definition splitext :: "string \<Rightarrow> string \<times> string" where
  "splitext p =
     (let sepIndex = rfind p (CHR ''/'');
          dotIndex = rfind p (CHR ''.'')
      in if dotIndex > sepIndex \<and>
            list_ex (\<lambda>c. c \<noteq> CHR ''.'')
              (take (nat (dotIndex - (sepIndex + 1))) (drop (nat (sepIndex + 1)) p))
         then (take (nat dotIndex) p, drop (nat dotIndex) p)
         else (p, []))"

text \<open>\<^verbatim>\<open>os.path.join(path, *bs)\<close> (posix): an absolute component restarts the path.\<close>

fun os_path_join :: "string \<Rightarrow> string list \<Rightarrow> string" where
  "os_path_join path [] = path"
| "os_path_join path (b # bs) =
     os_path_join
       (if take 1 b = ''/'' then b
        else if path = [] \<or> last path = CHR ''/'' then path @ b
        else path @ ''/'' @ b) bs"

text \<open>\<^verbatim>\<open>sub in s\<close> for strings: \<open>sub\<close> occurs in \<open>s\<close> as a contiguous run.\<close>

fun contains :: "string \<Rightarrow> string \<Rightarrow> bool" where
  "contains sub [] = (sub = [])"
| "contains sub (c # cs) = (take (length sub) (c # cs) = sub \<or> contains sub cs)"

section \<open>The format dispatcher \<^verbatim>\<open>Catalog.create\<close>\<close>

text \<open>
  What \<^verbatim>\<open>create\<close> reads of a catalog file: the header cards of HDU 1 and the column
  names of the table in HDU 1. A path that names no regular file is absent from
  \<open>files\<close>; a regular file that \<^verbatim>\<open>fits.open\<close> or \<^verbatim>\<open>Table.read\<close> cannot read is
  \<open>NotFits\<close>. \<open>package_data\<close> is \<^verbatim>\<open>fermipy.PACKAGE_DATA\<close>.
\<close>

record fits_file =
  header :: "string \<rightharpoonup> string"
  columns :: "string list"

datatype file_content = Fits fits_file | NotFits

record env =
  files :: "string \<rightharpoonup> file_content"
  package_data :: string

definition isfile :: "env \<Rightarrow> string \<Rightarrow> bool" where
  "isfile e p = (files e p \<noteq> None)"

definition fits_open :: "env \<Rightarrow> string \<Rightarrow> error + fits_file" where
  "fits_open e p = (case files e p of Some (Fits f) \<Rightarrow> Inr f | _ \<Rightarrow> Inl OSError)"

text \<open>
  The normalizer classes. A value \<open>(cls, Some f)\<close> is the call \<^verbatim>\<open>cls(f)\<close> and
  \<open>(cls, None)\<close> the call \<^verbatim>\<open>cls()\<close> that \<^verbatim>\<open>create\<close> returns the result of.
\<close>

datatype catalog_class =
    Catalog3FGL | Catalog2FHL | CatalogFL8Y | Catalog4FGL | Catalog4FGLDR2
  | Catalog4FGLDR3 | Catalog4FGLDR4 | Catalog4FGLP | CatalogFPY

type_synonym ctor_call = "catalog_class \<times> string option"

definition create :: "env \<Rightarrow> string \<Rightarrow> error + ctor_call" where
  "create e name0 =
     (let extname = snd (splitext name0) in
      if extname = ''.fits'' \<or> extname = ''.fit'' then
        (let fitsfile =
               (if \<not> isfile e name0
                then os_path_join (package_data e) [''catalogs'', name0]
                else name0)
         in case fits_open e fitsfile of
              Inl err \<Rightarrow> Inl err
            | Inr h \<Rightarrow>
               (let name = (case header h ''CDS-NAME'' of Some v \<Rightarrow> v | None \<Rightarrow> []);
                    catalog_file_version =
                      (case header h ''VERSION'' of Some v \<Rightarrow> v | None \<Rightarrow> []);
                    tab_columns = columns h;
                    after_guess =
                      (if ''NickName'' \<in> set tab_columns
                       then Inr (Catalog4FGLP, Some fitsfile)
                       else Inr (CatalogFPY, Some fitsfile))
                in if name = ''3FGL'' then Inr (Catalog3FGL, Some fitsfile)
                   else if name = ''FL8Y'' then Inr (CatalogFL8Y, Some fitsfile)
                   else if name = ''4FGL'' then
                     (if catalog_file_version \<in>
                           set [''v17'', ''v18'', ''v19'', ''v20'', ''v21'', ''v22''] then
                        (if ''PLEC_Index'' \<in> set tab_columns
                         then Inr (Catalog4FGL, Some fitsfile) else after_guess)
                      else if catalog_file_version \<in>
                           set [''v23'', ''v24'', ''v25'', ''v26'', ''v27''] then
                        (if ''PLEC_Index'' \<in> set tab_columns
                         then Inr (Catalog4FGLDR2, Some fitsfile) else after_guess)
                      else if catalog_file_version \<in>
                           set [''v28'', ''v29'', ''v30'', ''v31''] then
                        (if ''PLEC_IndexS'' \<in> set tab_columns
                         then Inr (Catalog4FGLDR3, Some fitsfile) else after_guess)
                      else if catalog_file_version \<in>
                           set [''v32'', ''v33'', ''v34'', ''v35''] then
                        (if ''PLEC_IndexS'' \<in> set tab_columns
                         then Inr (Catalog4FGLDR4, Some fitsfile) else after_guess)
                      else Inl (Exception
                             ''Error - 4FGL catalog fits file version not recognised.''))
                   else if contains ''gll_psch_v08'' fitsfile
                     then Inr (Catalog2FHL, Some fitsfile)
                   else after_guess))
      else if name0 = ''3FGL'' then Inr (Catalog3FGL, None)
      else if name0 = ''2FHL'' then Inr (Catalog2FHL, None)
      else if name0 = ''FL8Y'' then Inr (CatalogFL8Y, None)
      else if name0 = ''4FGL'' then Inr (Catalog4FGL, None)
      else if name0 = ''4FGL-DR2'' then Inr (Catalog4FGLDR2, None)
      else if name0 = ''4FGL-DR3'' then Inr (Catalog4FGLDR3, None)
      else if name0 = ''4FGL-DR4'' then Inr (Catalog4FGLDR4, None)
      else Inl (Exception (''Unrecognized catalog '' @ name0 @ ''.'')))"

section \<open>Numbers\<close>

text \<open>
  A float cell is a real number or NaN. Arithmetic on finite values is real arithmetic and
  NaN propagates, as in IEEE arithmetic; rounding, signed zeros and overflow are not
  modelled, and an operation whose IEEE result on finite arguments would be an infinity
  (division by zero, zero to a negative power) or NaN gives \<open>NaN\<close> here. No property below
  depends on that choice: they concern which cell receives which expression.
\<close>

datatype fl = NaN | Fin real

fun fl_mul :: "fl \<Rightarrow> fl \<Rightarrow> fl" where
  "fl_mul (Fin a) (Fin b) = Fin (a * b)"
| "fl_mul _ _ = NaN"

fun fl_add :: "fl \<Rightarrow> fl \<Rightarrow> fl" where
  "fl_add (Fin a) (Fin b) = Fin (a + b)"
| "fl_add _ _ = NaN"

fun fl_div :: "fl \<Rightarrow> fl \<Rightarrow> fl" where
  "fl_div (Fin a) (Fin b) = (if b = 0 then NaN else Fin (a / b))"
| "fl_div _ _ = NaN"

fun fl_exp :: "fl \<Rightarrow> fl" where
  "fl_exp (Fin a) = Fin (exp a)"
| "fl_exp NaN = NaN"

text \<open>\<^verbatim>\<open>x ** y\<close> on floats: \<open>pow(x, 0) = 1\<close> and \<open>pow(1, y) = 1\<close> even for NaN.\<close>

fun fl_pow :: "fl \<Rightarrow> fl \<Rightarrow> fl" where
  "fl_pow (Fin a) (Fin b) =
     (if b = 0 \<or> a = 1 then Fin 1
      else if 0 < a then Fin (a powr b)
      else if a = 0 then (if 0 < b then Fin 0 else NaN)
      else if b \<in> \<int> then Fin (a powi \<lfloor>b\<rfloor>)
      else NaN)"
| "fl_pow NaN (Fin b) = (if b = 0 then Fin 1 else NaN)"
| "fl_pow (Fin a) NaN = (if a = 1 then Fin 1 else NaN)"
| "fl_pow NaN NaN = NaN"

section \<open>Tables\<close>

text \<open>
  An \<^verbatim>\<open>astropy\<close> table is a sequence of named columns, each of one element type:
  text, integer, float, boolean, or (for \<^verbatim>\<open>param_values\<close>) a two-dimensional float
  column holding one vector per row. \<^verbatim>\<open>astropy\<close> keeps the names distinct and the
  columns equally long.
\<close>

datatype column =
    StrCol "string list"
  | IntCol "int list"
  | FltCol "fl list"
  | BoolCol "bool list"
  | VecCol "fl list list"

type_synonym table = "(string \<times> column) list"

fun col_len :: "column \<Rightarrow> nat" where
  "col_len (StrCol xs) = length xs"
| "col_len (IntCol xs) = length xs"
| "col_len (FltCol xs) = length xs"
| "col_len (BoolCol xs) = length xs"
| "col_len (VecCol xs) = length xs"

definition colnames :: "table \<Rightarrow> string list" where
  "colnames tab = map fst tab"

text \<open>\<^verbatim>\<open>len(tab)\<close>: the length of the columns, 0 for a table without columns.\<close>

definition nrows :: "table \<Rightarrow> nat" where
  "nrows tab = (case tab of [] \<Rightarrow> 0 | (n, c) # rest \<Rightarrow> col_len c)"

definition wf_table :: "table \<Rightarrow> bool" where
  "wf_table tab = (distinct (colnames tab) \<and> list_all (\<lambda>(n, c). col_len c = nrows tab) tab)"

text \<open>\<^verbatim>\<open>tab[name]\<close> raises \<^verbatim>\<open>KeyError\<close> for a name that is no column.\<close>

definition get_col :: "table \<Rightarrow> string \<Rightarrow> error + column" where
  "get_col tab name = (case map_of tab name of None \<Rightarrow> Inl (KeyError name) | Some c \<Rightarrow> Inr c)"

text \<open>
  \<^verbatim>\<open>tab[name] = c\<close> replaces the column of that name where it stands, or appends a new
  column.
\<close>

definition set_col :: "table \<Rightarrow> string \<Rightarrow> column \<Rightarrow> table" where
  "set_col tab name c =
     (if name \<in> set (colnames tab)
      then map (\<lambda>p. if fst p = name then (name, c) else p) tab
      else tab @ [(name, c)])"

text \<open>
  A column read where numbers are expected. Integers and booleans convert to floats; a
  text column or a two-dimensional column in that place makes \<^verbatim>\<open>numpy\<close> raise (text
  that spells a number is not parsed here).
\<close>

fun float_values :: "column \<Rightarrow> error + fl list" where
  "float_values (FltCol xs) = Inr xs"
| "float_values (IntCol xs) = Inr (map (\<lambda>n. Fin (of_int n)) xs)"
| "float_values (BoolCol xs) = Inr (map (\<lambda>b. Fin (if b then 1 else 0)) xs)"
| "float_values (StrCol xs) = Inl TypeError"
| "float_values (VecCol xs) = Inl ValueError"

section \<open>Parameter vectors: \<^verbatim>\<open>_fill_params\<close>\<close>

text \<open>
  The Parameter Registry \<^verbatim>\<open>fermipy.model_utils.get_function_par_names\<close> is not part of
  the module; it is a parameter \<open>reg\<close> of everything that calls it.
  \<^verbatim>\<open>{k: i for i, k in enumerate(names)}\<close> maps a name to its position, the last one
  when a name is repeated.
\<close>

type_synonym registry = "string \<Rightarrow> string list"

definition enumerate_dict :: "string list \<Rightarrow> (string \<rightharpoonup> nat)" where
  "enumerate_dict names = map_of (rev (zip names [0..<length names]))"

text \<open>
  The right-hand sides of the assignments are column expressions, evaluated on the whole
  column: \<open>col c\<close> is \<^verbatim>\<open>tab[c]\<close>, \<open>times k r\<close> is \<^verbatim>\<open>k * r\<close>, \<open>lift1\<close> and \<open>lift2\<close>
  apply a function or an operator elementwise. Operands are evaluated left to right, so
  the first missing column is the one reported.
\<close>

type_synonym rhs = "table \<Rightarrow> error + fl list"

definition col :: "string \<Rightarrow> rhs" where
  "col name tab = (case get_col tab name of Inl e \<Rightarrow> Inl e | Inr c \<Rightarrow> float_values c)"

definition lift1 :: "(fl \<Rightarrow> fl) \<Rightarrow> rhs \<Rightarrow> rhs" where
  "lift1 f r tab = (case r tab of Inl e \<Rightarrow> Inl e | Inr xs \<Rightarrow> Inr (map f xs))"

definition times :: "real \<Rightarrow> rhs \<Rightarrow> rhs" where
  "times k r = lift1 (fl_mul (Fin k)) r"

definition lift2 :: "(fl \<Rightarrow> fl \<Rightarrow> fl) \<Rightarrow> rhs \<Rightarrow> rhs \<Rightarrow> rhs" where
  "lift2 f r1 r2 tab =
     (case r1 tab of
        Inl e \<Rightarrow> Inl e
      | Inr xs \<Rightarrow>
         (case r2 tab of
            Inl e \<Rightarrow> Inl e
          | Inr ys \<Rightarrow> if length xs = length ys then Inr (map2 f xs ys) else Inl ValueError))"

text \<open>\<^verbatim>\<open>m = tab['SpectrumType'] == family\<close>; a column that is not text equals no string.\<close>

definition spectrum_mask :: "table \<Rightarrow> string \<Rightarrow> error + bool list" where
  "spectrum_mask tab family =
     (case get_col tab ''SpectrumType'' of
        Inl e \<Rightarrow> Inl e
      | Inr (StrCol xs) \<Rightarrow> Inr (map (\<lambda>s. s = family) xs)
      | Inr c \<Rightarrow> Inr (replicate (col_len c) False))"

text \<open>\<^verbatim>\<open>tab['param_values'] = np.nan * np.ones((len(tab), 10))\<close>\<close>

definition init_param_values :: "table \<Rightarrow> table" where
  "init_param_values tab =
     set_col tab ''param_values'' (VecCol (replicate (nrows tab) (replicate 10 NaN)))"

text \<open>
  \<^verbatim>\<open>pv[m, j] = vals[m]\<close>: in every row that the mask selects, slot \<open>j\<close> receives that
  row's value; the other rows are untouched.
\<close>

definition assign_rows :: "bool list \<Rightarrow> nat \<Rightarrow> fl list \<Rightarrow> fl list list \<Rightarrow> fl list list" where
  "assign_rows m j vals pv =
     map (\<lambda>i. if m ! i then (pv ! i)[j := vals ! i] else pv ! i) [0..<length pv]"

text \<open>
  \<^verbatim>\<open>tab['param_values'][m, j] = rhs\<close> for a slot index \<open>j\<close>. The right-hand side is
  evaluated first. \<^verbatim>\<open>numpy\<close> raises \<^verbatim>\<open>IndexError\<close> when the mask does not fit the
  column, or when a selected row has no slot \<open>j\<close>.
\<close>

definition assign_slot :: "bool list \<Rightarrow> nat \<Rightarrow> rhs \<Rightarrow> table \<Rightarrow> error + table" where
  "assign_slot m j r tab =
     (case r tab of
        Inl e \<Rightarrow> Inl e
      | Inr vals \<Rightarrow>
         (case get_col tab ''param_values'' of
            Inl e \<Rightarrow> Inl e
          | Inr (VecCol pv) \<Rightarrow>
              if length m \<noteq> length pv \<or> length vals \<noteq> length pv then Inl IndexError
              else if list_ex (\<lambda>(b, row). b \<and> \<not> j < length row) (zip m pv) then Inl IndexError
              else Inr (set_col tab ''param_values'' (VecCol (assign_rows m j vals pv)))
          | Inr c \<Rightarrow> Inl IndexError))"

text \<open>
  The slot of an assignment is either a literal index, or \<^verbatim>\<open>idxs[name]\<close> for the
  dictionary \<open>idxs\<close> built from the registry, which raises \<^verbatim>\<open>KeyError\<close> for a name the
  registry does not list.
\<close>

datatype slot = Literal nat | Par string

fun resolve :: "(string \<rightharpoonup> nat) \<Rightarrow> slot \<Rightarrow> error + nat" where
  "resolve idxs (Literal j) = Inr j"
| "resolve idxs (Par name) =
     (case idxs name of None \<Rightarrow> Inl (KeyError name) | Some j \<Rightarrow> Inr j)"

definition assign :: "bool list \<Rightarrow> (string \<rightharpoonup> nat) \<Rightarrow> slot \<Rightarrow> rhs \<Rightarrow> table \<Rightarrow> error + table" where
  "assign m idxs s r tab =
     (case r tab of
        Inl e \<Rightarrow> Inl e
      | Inr vals \<Rightarrow>
         (case resolve idxs s of Inl e \<Rightarrow> Inl e | Inr j \<Rightarrow> assign_slot m j r tab))"

text \<open>The assignments of one family, in the order of the source.\<close>

fun run_assigns ::
  "bool list \<Rightarrow> (string \<rightharpoonup> nat) \<Rightarrow> (slot \<times> rhs) list \<Rightarrow> table \<Rightarrow> error + table" where
  "run_assigns m idxs [] tab = Inr tab"
| "run_assigns m idxs ((s, r) # rest) tab =
     (case assign m idxs s r tab of
        Inl e \<Rightarrow> Inl e
      | Inr tab' \<Rightarrow> run_assigns m idxs rest tab')"

text \<open>
  One block per spectral family: the mask of the rows of that family, the dictionary of
  the family's parameter names, then the assignments.
\<close>

fun run_families ::
  "registry \<Rightarrow> (string \<times> (slot \<times> rhs) list) list \<Rightarrow> table \<Rightarrow> error + table" where
  "run_families reg [] tab = Inr tab"
| "run_families reg ((family, assigns) # rest) tab =
     (case spectrum_mask tab family of
        Inl e \<Rightarrow> Inl e
      | Inr m \<Rightarrow>
         (case run_assigns m (enumerate_dict (reg family)) assigns tab of
            Inl e \<Rightarrow> Inl e
          | Inr tab' \<Rightarrow> run_families reg rest tab'))"

text \<open>
  The body of each class's \<^verbatim>\<open>_fill_params\<close> after the first line: per family, the
  assignments \<^verbatim>\<open>tab['param_values'][m, slot] = expression\<close> in source order.
  \<^verbatim>\<open>Catalog2FHL\<close> writes literal slots; the others look the slot up in \<open>idxs\<close>.
  \<^verbatim>\<open>Catalog4FGLP\<close> and \<^verbatim>\<open>CatalogFPY\<close> define no \<^verbatim>\<open>_fill_params\<close>.
\<close>

definition PowerLaw_4FGL :: "string \<times> (slot \<times> rhs) list" where
  "PowerLaw_4FGL =
     (''PowerLaw'',
      [(Par ''Prefactor'', col ''PL_Flux_Density''),
       (Par ''Index'', times (- 1) (col ''PL_Index'')),
       (Par ''Scale'', col ''Pivot_Energy'')])"

definition PLSuperExpCutoff2_4FGL :: "string \<times> (slot \<times> rhs) list" where
  "PLSuperExpCutoff2_4FGL =
     (''PLSuperExpCutoff2'',
      [(Par ''Prefactor'',
          lift2 fl_mul (col ''PLEC_Flux_Density'')
            (lift1 fl_exp
               (lift2 fl_mul (col ''PLEC_Expfactor'')
                  (lift2 fl_pow (col ''Pivot_Energy'') (col ''PLEC_Exp_Index''))))),
       (Par ''Index1'', times (- 1) (col ''PLEC_Index'')),
       (Par ''Scale'', col ''Pivot_Energy''),
       (Par ''Expfactor'', col ''PLEC_Expfactor''),
       (Par ''Index2'', col ''PLEC_Exp_Index'')])"

definition PLSuperExpCutoff4_4FGL :: "string \<times> (slot \<times> rhs) list" where
  "PLSuperExpCutoff4_4FGL =
     (''PLSuperExpCutoff4'',
      [(Par ''Prefactor'', col ''PLEC_Flux_Density''),
       (Par ''IndexS'', times (- 1) (col ''PLEC_IndexS'')),
       (Par ''Scale'', col ''Pivot_Energy''),
       (Par ''ExpfactorS'', col ''PLEC_ExpfactorS''),
       (Par ''Index2'', col ''PLEC_Exp_Index'')])"

definition LogParabola_4FGL :: "string \<times> (slot \<times> rhs) list" where
  "LogParabola_4FGL =
     (''LogParabola'',
      [(Par ''norm'', col ''LP_Flux_Density''),
       (Par ''alpha'', col ''LP_Index''),
       (Par ''beta'', col ''LP_beta''),
       (Par ''Eb'', col ''Pivot_Energy'')])"

fun fill_rules :: "catalog_class \<Rightarrow> (string \<times> (slot \<times> rhs) list) list" where
  "fill_rules Catalog2FHL =
     [(''PowerLaw'',
       [(Literal 0, col ''Flux_Density''),
        (Literal 1, times (- 1) (col ''Spectral_Index'')),
        (Literal 2, col ''Pivot_Energy'')])]"
| "fill_rules Catalog3FGL =
     [(''PowerLaw'',
       [(Par ''Prefactor'', col ''Flux_Density''),
        (Par ''Index'', times (- 1) (col ''Spectral_Index'')),
        (Par ''Scale'', col ''Pivot_Energy'')]),
      (''PLSuperExpCutoff'',
       [(Par ''Prefactor'',
           lift2 fl_mul (col ''Flux_Density'')
             (lift1 fl_exp
                (lift2 fl_pow (lift2 fl_div (col ''Pivot_Energy'') (col ''Cutoff''))
                   (col ''Exp_Index'')))),
        (Par ''Index1'', times (- 1) (col ''Spectral_Index'')),
        (Par ''Scale'', col ''Pivot_Energy''),
        (Par ''Cutoff'', col ''Cutoff''),
        (Par ''Index2'', col ''Exp_Index'')]),
      (''LogParabola'',
       [(Par ''norm'', col ''Flux_Density''),
        (Par ''alpha'', col ''Spectral_Index''),
        (Par ''beta'', col ''beta''),
        (Par ''Eb'', col ''Pivot_Energy'')])]"
| "fill_rules Catalog4FGL = [PowerLaw_4FGL, PLSuperExpCutoff2_4FGL, LogParabola_4FGL]"
| "fill_rules CatalogFL8Y =
     [(''PowerLaw'',
       [(Par ''Prefactor'', col ''Flux_Density''),
        (Par ''Index'', times (- 1) (col ''PL_Index'')),
        (Par ''Scale'', col ''Pivot_Energy'')]),
      (''PLSuperExpCutoff2'',
       [(Par ''Prefactor'',
           lift2 fl_mul (col ''Flux_Density'')
             (lift1 fl_exp
                (lift2 fl_mul (col ''PLEC_Expfactor'')
                   (lift2 fl_pow (col ''Pivot_Energy'') (col ''PLEC_Exp_Index''))))),
        (Par ''Index1'', times (- 1) (col ''PLEC_Index'')),
        (Par ''Scale'', col ''Pivot_Energy''),
        (Par ''Expfactor'', col ''PLEC_Expfactor''),
        (Par ''Index2'', col ''PLEC_Exp_Index'')]),
      (''LogParabola'',
       [(Par ''norm'', col ''Flux_Density''),
        (Par ''alpha'', col ''LP_Index''),
        (Par ''beta'', col ''LP_beta''),
        (Par ''Eb'', col ''Pivot_Energy'')])]"
| "fill_rules Catalog4FGLDR2 = [PowerLaw_4FGL, PLSuperExpCutoff2_4FGL, LogParabola_4FGL]"
| "fill_rules Catalog4FGLDR3 = [PowerLaw_4FGL, PLSuperExpCutoff4_4FGL, LogParabola_4FGL]"
| "fill_rules Catalog4FGLDR4 = [PowerLaw_4FGL, PLSuperExpCutoff4_4FGL, LogParabola_4FGL]"
| "fill_rules Catalog4FGLP = []"
| "fill_rules CatalogFPY = []"

text \<open>
  \<^verbatim>\<open>cls._fill_params(tab)\<close>: the table gets a fresh all-NaN \<^verbatim>\<open>param_values\<close> column
  of 10 slots per row, then the family blocks run.
\<close>

definition fill_params :: "catalog_class \<Rightarrow> registry \<Rightarrow> table \<Rightarrow> error + table" where
  "fill_params cls reg tab =
     (if cls = Catalog4FGLP \<or> cls = CatalogFPY then Inl AttributeError
      else run_families reg (fill_rules cls) (init_param_values tab))"

text \<open>
  The parameter orders that the comments of the source give above each block
  (\<^verbatim>\<open># Prefactor, Index, Scale\<close> and so on). They stand for the registry in the
  examples.
\<close>

definition commented_par_names :: registry where
  "commented_par_names f =
     (if f = ''PowerLaw'' then [''Prefactor'', ''Index'', ''Scale'']
      else if f = ''PLSuperExpCutoff'' then
        [''Prefactor'', ''Index1'', ''Scale'', ''Cutoff'', ''Index2'']
      else if f = ''PLSuperExpCutoff2'' then
        [''Prefactor'', ''Index1'', ''Scale'', ''Expfactor'', ''Index2'']
      else if f = ''PLSuperExpCutoff4'' then
        [''Prefactor'', ''IndexS'', ''Scale'', ''ExpfactorS'', ''Index2'']
      else if f = ''LogParabola'' then [''norm'', ''alpha'', ''beta'', ''Eb'']
      else [])"

text \<open>A registry that lists the parameters of \<^verbatim>\<open>PowerLaw\<close> in another order.\<close>

definition index_first_par_names :: registry where
  "index_first_par_names f =
     (if f = ''PowerLaw'' then [''Index'', ''Prefactor'', ''Scale''] else commented_par_names f)"

section \<open>Notions used in the proofs\<close>

text \<open>
  Two tables agree outside \<^verbatim>\<open>param_values\<close>; a right-hand side that reads no
  \<^verbatim>\<open>param_values\<close> has the same value on both.
\<close>

definition same_except_pv :: "table \<Rightarrow> table \<Rightarrow> bool" where
  "same_except_pv t t' = (\<forall>n. n \<noteq> ''param_values'' \<longrightarrow> get_col t' n = get_col t n)"

definition pv_free :: "rhs \<Rightarrow> bool" where
  "pv_free r = (\<forall>t t'. same_except_pv t t' \<longrightarrow> r t' = r t)"

section \<open>Lemmas on tables and on the filling of \<^verbatim>\<open>param_values\<close>\<close>

lemma map_of_replace_other:
  "k \<noteq> name \<Longrightarrow> map_of (map (\<lambda>p. if fst p = name then (name, c) else p) tab) k = map_of tab k"
  by (induction tab) auto

lemma map_of_replace_same:
  "name \<in> fst ` set tab \<Longrightarrow>
   map_of (map (\<lambda>p. if fst p = name then (name, c) else p) tab) name = Some c"
  by (induction tab) auto

lemma get_col_set_col_same: "get_col (set_col tab n c) n = Inr c"
proof (cases "n \<in> set (colnames tab)")
  case True
  then show ?thesis
    by (simp add: get_col_def set_col_def colnames_def map_of_replace_same)
next
  case False
  then have "map_of tab n = None"
    by (simp add: colnames_def map_of_eq_None_iff)
  with False show ?thesis
    by (simp add: get_col_def set_col_def map_add_def)
qed

lemma get_col_set_col_other: "k \<noteq> n \<Longrightarrow> get_col (set_col tab n c) k = get_col tab k"
  by (simp add: get_col_def set_col_def colnames_def map_of_replace_other map_add_def
           split: option.splits)

lemma same_except_pv_refl: "same_except_pv t t"
  by (simp add: same_except_pv_def)

lemma same_except_pv_trans:
  "same_except_pv t t' \<Longrightarrow> same_except_pv t' t'' \<Longrightarrow> same_except_pv t t''"
  by (simp add: same_except_pv_def)

lemma same_except_pv_set_col: "same_except_pv t (set_col t ''param_values'' c)"
  by (simp add: same_except_pv_def get_col_set_col_other)

lemma pv_free_col: "name \<noteq> ''param_values'' \<Longrightarrow> pv_free (col name)"
  by (simp add: pv_free_def col_def same_except_pv_def)

lemma pv_free_lift1: "pv_free r \<Longrightarrow> pv_free (lift1 f r)"
  by (simp add: pv_free_def lift1_def)

lemma pv_free_times: "pv_free r \<Longrightarrow> pv_free (times k r)"
  by (simp add: times_def pv_free_lift1)

lemma pv_free_lift2: "pv_free r1 \<Longrightarrow> pv_free r2 \<Longrightarrow> pv_free (lift2 f r1 r2)"
  by (simp add: pv_free_def lift2_def cong: sum.case_cong)

lemma spectrum_mask_same:
  "same_except_pv t t' \<Longrightarrow> spectrum_mask t' f = spectrum_mask t f"
  by (simp add: spectrum_mask_def same_except_pv_def)

lemma spectrum_mask_StrCol:
  "get_col tab ''SpectrumType'' = Inr (StrCol st) \<Longrightarrow>
   spectrum_mask tab f = Inr (map (\<lambda>s. s = f) st)"
  by (simp add: spectrum_mask_def)

lemma length_assign_rows: "length (assign_rows m j vals pv) = length pv"
  by (simp add: assign_rows_def)

lemma nth_assign_rows:
  "i < length pv \<Longrightarrow>
   assign_rows m j vals pv ! i = (if m ! i then (pv ! i)[j := vals ! i] else pv ! i)"
  by (simp add: assign_rows_def)

lemma no_bad_row:
  assumes "length m = length pv"
    and "\<not> list_ex (\<lambda>(b, row). b \<and> \<not> j < length row) (zip m pv)"
    and "i < length pv" and "m ! i"
  shows "j < length (pv ! i)"
proof -
  have "(m ! i, pv ! i) \<in> set (zip m pv)"
    using assms(1,3) by (metis in_set_zip fst_conv snd_conv)
  with assms(2,4) show ?thesis by (auto simp: list_ex_iff)
qed

lemma assign_slot_Inr:
  assumes "assign_slot m j r tab = Inr tab'"
    and "get_col tab ''param_values'' = Inr (VecCol pv)"
  shows "\<exists>vals. r tab = Inr vals \<and> length m = length pv \<and> length vals = length pv \<and>
           (\<forall>i<length pv. m ! i \<longrightarrow> j < length (pv ! i)) \<and>
           tab' = set_col tab ''param_values'' (VecCol (assign_rows m j vals pv))"
  using assms
  by (auto simp: assign_slot_def split: sum.splits if_splits intro: no_bad_row)

lemma assign_Inr:
  assumes "assign m idxs s r tab = Inr tab'"
    and "get_col tab ''param_values'' = Inr (VecCol pv)"
  shows "\<exists>vals j. r tab = Inr vals \<and> resolve idxs s = Inr j \<and>
           length m = length pv \<and> length vals = length pv \<and>
           (\<forall>i<length pv. m ! i \<longrightarrow> j < length (pv ! i)) \<and>
           tab' = set_col tab ''param_values'' (VecCol (assign_rows m j vals pv))"
proof -
  from assms(1) obtain vals j where
    r: "r tab = Inr vals" and j: "resolve idxs s = Inr j" and a: "assign_slot m j r tab = Inr tab'"
    by (auto simp: assign_def split: sum.splits)
  from assign_slot_Inr [OF a assms(2)] r j show ?thesis by auto
qed

lemma run_assigns_frame:
  assumes "run_assigns m idxs as tab = Inr tab'"
    and "get_col tab ''param_values'' = Inr (VecCol pv)"
  shows "\<exists>pv'. get_col tab' ''param_values'' = Inr (VecCol pv') \<and> same_except_pv tab tab' \<and>
           length pv' = length pv \<and> (as \<noteq> [] \<longrightarrow> length m = length pv) \<and>
           (\<forall>i<length pv. length (pv' ! i) = length (pv ! i) \<and>
              (\<not> m ! i \<longrightarrow> pv' ! i = pv ! i) \<and>
              (\<forall>j. (\<forall>x\<in>set as. resolve idxs (fst x) \<noteq> Inr j) \<longrightarrow> pv' ! i ! j = pv ! i ! j))"
  using assms
proof (induction as arbitrary: tab pv)
  case Nil
  then show ?case by (simp add: same_except_pv_refl)
next
  case (Cons a as)
  obtain s r where a: "a = (s, r)" by (cases a)
  from Cons.prems(1) obtain tab1 where
    st: "assign m idxs s r tab = Inr tab1" and rest: "run_assigns m idxs as tab1 = Inr tab'"
    by (auto simp: a split: sum.splits)
  from assign_Inr [OF st Cons.prems(2)] obtain vals j where
    j: "resolve idxs s = Inr j" and lm: "length m = length pv" and
    tab1: "tab1 = set_col tab ''param_values'' (VecCol (assign_rows m j vals pv))"
    by blast
  let ?pv1 = "assign_rows m j vals pv"
  have pv1: "get_col tab1 ''param_values'' = Inr (VecCol ?pv1)"
    by (simp add: tab1 get_col_set_col_same)
  from Cons.IH [OF rest pv1] obtain pv' where
    g: "get_col tab' ''param_values'' = Inr (VecCol pv')" and
    same: "same_except_pv tab1 tab'" and
    len: "length pv' = length ?pv1" and
    rows: "\<forall>i<length ?pv1. length (pv' ! i) = length (?pv1 ! i) \<and>
              (\<not> m ! i \<longrightarrow> pv' ! i = ?pv1 ! i) \<and>
              (\<forall>j. (\<forall>x\<in>set as. resolve idxs (fst x) \<noteq> Inr j) \<longrightarrow> pv' ! i ! j = ?pv1 ! i ! j)"
    by blast
  have "same_except_pv tab tab1"
    by (simp add: tab1 same_except_pv_set_col)
  then have same': "same_except_pv tab tab'"
    using same by (rule same_except_pv_trans)
  have "\<forall>i<length pv. length (pv' ! i) = length (pv ! i) \<and>
              (\<not> m ! i \<longrightarrow> pv' ! i = pv ! i) \<and>
              (\<forall>j'. (\<forall>x\<in>set (a # as). resolve idxs (fst x) \<noteq> Inr j') \<longrightarrow>
                     pv' ! i ! j' = pv ! i ! j')"
  proof (intro allI impI)
    fix i assume i: "i < length pv"
    then have r: "length (pv' ! i) = length (?pv1 ! i)"
      "\<not> m ! i \<longrightarrow> pv' ! i = ?pv1 ! i"
      "\<forall>j. (\<forall>x\<in>set as. resolve idxs (fst x) \<noteq> Inr j) \<longrightarrow> pv' ! i ! j = ?pv1 ! i ! j"
      using rows by (simp_all add: length_assign_rows)
    have n: "?pv1 ! i = (if m ! i then (pv ! i)[j := vals ! i] else pv ! i)"
      using i by (rule nth_assign_rows)
    show "length (pv' ! i) = length (pv ! i) \<and>
              (\<not> m ! i \<longrightarrow> pv' ! i = pv ! i) \<and>
              (\<forall>j'. (\<forall>x\<in>set (a # as). resolve idxs (fst x) \<noteq> Inr j') \<longrightarrow>
                     pv' ! i ! j' = pv ! i ! j')"
      using r n j by (auto simp: a)
  qed
  with g same' len lm show ?case
    by (auto simp: length_assign_rows)
qed

lemma run_assigns_value:
  assumes "run_assigns m idxs as tab = Inr tab'"
    and "get_col tab ''param_values'' = Inr (VecCol pv)"
    and "get_col tab' ''param_values'' = Inr (VecCol pv')"
    and "\<forall>x\<in>set as. pv_free (snd x)"
    and "distinct (map (\<lambda>x. resolve idxs (fst x)) as)"
    and "(s, r) \<in> set as"
    and "i < length pv" and "m ! i"
  shows "\<exists>j vals. resolve idxs s = Inr j \<and> r tab = Inr vals \<and> length vals = length pv \<and>
           j < length (pv ! i) \<and> pv' ! i ! j = vals ! i"
  using assms
proof (induction as arbitrary: tab pv)
  case Nil
  then show ?case by simp
next
  case (Cons a as)
  obtain s0 r0 where a: "a = (s0, r0)" by (cases a)
  from Cons.prems(1) obtain tab1 where
    st: "assign m idxs s0 r0 tab = Inr tab1" and rest: "run_assigns m idxs as tab1 = Inr tab'"
    by (auto simp: a split: sum.splits)
  from assign_Inr [OF st Cons.prems(2)] obtain vals0 j0 where
    r0: "r0 tab = Inr vals0" and j0: "resolve idxs s0 = Inr j0" and
    lm: "length m = length pv" and lv0: "length vals0 = length pv" and
    ok: "\<forall>i<length pv. m ! i \<longrightarrow> j0 < length (pv ! i)" and
    tab1: "tab1 = set_col tab ''param_values'' (VecCol (assign_rows m j0 vals0 pv))"
    by blast
  let ?pv1 = "assign_rows m j0 vals0 pv"
  have pv1: "get_col tab1 ''param_values'' = Inr (VecCol ?pv1)"
    by (simp add: tab1 get_col_set_col_same)
  have n: "?pv1 ! i = (pv ! i)[j0 := vals0 ! i]"
    using Cons.prems(7,8) by (simp add: nth_assign_rows)
  have same1: "same_except_pv tab tab1"
    by (simp add: tab1 same_except_pv_set_col)
  show ?case
  proof (cases "(s, r) = (s0, r0)")
    case True
    from run_assigns_frame [OF rest pv1] Cons.prems(3) have
      fr: "\<forall>j. (\<forall>x\<in>set as. resolve idxs (fst x) \<noteq> Inr j) \<longrightarrow> pv' ! i ! j = ?pv1 ! i ! j"
      using Cons.prems(7) by (auto simp: length_assign_rows)
    have "\<forall>x\<in>set as. resolve idxs (fst x) \<noteq> Inr j0"
      using Cons.prems(5) j0 by (force simp: a)
    with fr have "pv' ! i ! j0 = ?pv1 ! i ! j0" by blast
    moreover have "j0 < length (pv ! i)" using ok Cons.prems(7,8) by blast
    ultimately show ?thesis
      using True r0 j0 n lv0 by auto
  next
    case False
    with Cons.prems(6) have mem: "(s, r) \<in> set as" by (auto simp: a)
    have i1: "i < length ?pv1" using Cons.prems(7) by (simp add: length_assign_rows)
    from Cons.IH [OF rest pv1 Cons.prems(3) _ _ mem i1 Cons.prems(8)] Cons.prems(4,5)
    obtain j vals where
      j: "resolve idxs s = Inr j" and rv: "r tab1 = Inr vals" and
      lv: "length vals = length ?pv1" and
      jl: "j < length (?pv1 ! i)" and v: "pv' ! i ! j = vals ! i"
      by auto
    have "pv_free r" using Cons.prems(4) mem by force
    then have "r tab1 = r tab" using same1 by (simp add: pv_free_def)
    with j rv jl v n lv show ?thesis by (auto simp: length_assign_rows)
  qed
qed

lemma same_except_pv_SpectrumType:
  "same_except_pv t t' \<Longrightarrow> get_col t' ''SpectrumType'' = get_col t ''SpectrumType''"
  by (simp add: same_except_pv_def)

lemma run_families_frame:
  assumes "run_families reg rules tab = Inr tab'"
    and "get_col tab ''param_values'' = Inr (VecCol pv)"
    and "get_col tab ''SpectrumType'' = Inr (StrCol st)"
  shows "\<exists>pv'. get_col tab' ''param_values'' = Inr (VecCol pv') \<and> same_except_pv tab tab' \<and>
           length pv' = length pv \<and>
           ((\<exists>x\<in>set rules. snd x \<noteq> []) \<longrightarrow> length st = length pv) \<and>
           (\<forall>i<length pv. length (pv' ! i) = length (pv ! i) \<and>
              (i < length st \<longrightarrow>
                 (\<forall>j. (\<forall>x\<in>set rules. fst x = st ! i \<longrightarrow>
                         (\<forall>y\<in>set (snd x). resolve (enumerate_dict (reg (fst x))) (fst y) \<noteq> Inr j))
                      \<longrightarrow> pv' ! i ! j = pv ! i ! j)))"
  using assms
proof (induction rules arbitrary: tab pv)
  case Nil
  then show ?case by (simp add: same_except_pv_refl)
next
  case (Cons a rules)
  obtain f as where a: "a = (f, as)" by (cases a)
  let ?m = "map (\<lambda>s. s = f) st"
  let ?idxs = "enumerate_dict (reg f)"
  have m: "spectrum_mask tab f = Inr ?m"
    using Cons.prems(3) by (rule spectrum_mask_StrCol)
  from Cons.prems(1) obtain tab1 where
    ra: "run_assigns ?m ?idxs as tab = Inr tab1" and
    rest: "run_families reg rules tab1 = Inr tab'"
    by (auto simp: a m split: sum.splits)
  from run_assigns_frame [OF ra Cons.prems(2)] obtain pv1 where
    pv1: "get_col tab1 ''param_values'' = Inr (VecCol pv1)" and
    same1: "same_except_pv tab tab1" and
    len1: "length pv1 = length pv" and
    lm: "as \<noteq> [] \<longrightarrow> length ?m = length pv" and
    rows1: "\<forall>i<length pv. length (pv1 ! i) = length (pv ! i) \<and>
              (\<not> ?m ! i \<longrightarrow> pv1 ! i = pv ! i) \<and>
              (\<forall>j. (\<forall>x\<in>set as. resolve ?idxs (fst x) \<noteq> Inr j) \<longrightarrow> pv1 ! i ! j = pv ! i ! j)"
    by blast
  have st1: "get_col tab1 ''SpectrumType'' = Inr (StrCol st)"
    using same_except_pv_SpectrumType [OF same1] Cons.prems(3) by simp
  from Cons.IH [OF rest pv1 st1] obtain pv' where
    g: "get_col tab' ''param_values'' = Inr (VecCol pv')" and
    same: "same_except_pv tab1 tab'" and
    len: "length pv' = length pv1" and
    ll: "(\<exists>x\<in>set rules. snd x \<noteq> []) \<longrightarrow> length st = length pv1" and
    rows: "\<forall>i<length pv1. length (pv' ! i) = length (pv1 ! i) \<and>
              (i < length st \<longrightarrow>
                 (\<forall>j. (\<forall>x\<in>set rules. fst x = st ! i \<longrightarrow>
                         (\<forall>y\<in>set (snd x). resolve (enumerate_dict (reg (fst x))) (fst y) \<noteq> Inr j))
                      \<longrightarrow> pv' ! i ! j = pv1 ! i ! j))"
    by blast
  have same': "same_except_pv tab tab'"
    using same1 same by (rule same_except_pv_trans)
  have lens: "(\<exists>x\<in>set (a # rules). snd x \<noteq> []) \<longrightarrow> length st = length pv"
    using lm ll len1 by (auto simp: a)
  have "\<forall>i<length pv. length (pv' ! i) = length (pv ! i) \<and>
              (i < length st \<longrightarrow>
                 (\<forall>j. (\<forall>x\<in>set (a # rules). fst x = st ! i \<longrightarrow>
                         (\<forall>y\<in>set (snd x). resolve (enumerate_dict (reg (fst x))) (fst y) \<noteq> Inr j))
                      \<longrightarrow> pv' ! i ! j = pv ! i ! j))"
  proof (intro allI impI conjI)
    fix i assume i: "i < length pv"
    show "length (pv' ! i) = length (pv ! i)"
      using rows rows1 i len1 by simp
  next
    fix i j
    assume i: "i < length pv" and ist: "i < length st"
      and h: "\<forall>x\<in>set (a # rules). fst x = st ! i \<longrightarrow>
                (\<forall>y\<in>set (snd x). resolve (enumerate_dict (reg (fst x))) (fst y) \<noteq> Inr j)"
    have mi: "?m ! i = (st ! i = f)" using ist by simp
    have "pv1 ! i ! j = pv ! i ! j"
    proof (cases "st ! i = f")
      case True
      with h have "\<forall>y\<in>set as. resolve ?idxs (fst y) \<noteq> Inr j" by (simp add: a)
      with rows1 i show ?thesis by blast
    next
      case False
      with mi rows1 i show ?thesis by simp
    qed
    moreover have "pv' ! i ! j = pv1 ! i ! j"
      using rows i ist h len1 by simp
    ultimately show "pv' ! i ! j = pv ! i ! j" by simp
  qed
  with g same' len len1 lens show ?case by auto
qed

lemma run_families_value:
  assumes "run_families reg rules tab = Inr tab'"
    and "get_col tab ''param_values'' = Inr (VecCol pv)"
    and "get_col tab' ''param_values'' = Inr (VecCol pv')"
    and "get_col tab ''SpectrumType'' = Inr (StrCol st)"
    and "\<forall>x\<in>set rules. \<forall>y\<in>set (snd x). pv_free (snd y)"
    and "distinct (map fst rules)"
    and "(f, as) \<in> set rules"
    and "distinct (map (\<lambda>y. resolve (enumerate_dict (reg f)) (fst y)) as)"
    and "(s, r) \<in> set as"
    and "i < length st" and "st ! i = f"
  shows "\<exists>j vals. resolve (enumerate_dict (reg f)) s = Inr j \<and> r tab = Inr vals \<and>
           length vals = length pv \<and> length st = length pv \<and>
           j < length (pv ! i) \<and> pv' ! i ! j = vals ! i"
  using assms
proof (induction rules arbitrary: tab pv)
  case Nil
  then show ?case by simp
next
  case (Cons a rules)
  obtain f0 as0 where a: "a = (f0, as0)" by (cases a)
  let ?m = "map (\<lambda>s. s = f0) st"
  let ?idxs = "enumerate_dict (reg f0)"
  have m: "spectrum_mask tab f0 = Inr ?m"
    using Cons.prems(4) by (rule spectrum_mask_StrCol)
  from Cons.prems(1) obtain tab1 where
    ra: "run_assigns ?m ?idxs as0 tab = Inr tab1" and
    rest: "run_families reg rules tab1 = Inr tab'"
    by (auto simp: a m split: sum.splits)
  from run_assigns_frame [OF ra Cons.prems(2)] obtain pv1 where
    pv1: "get_col tab1 ''param_values'' = Inr (VecCol pv1)" and
    same1: "same_except_pv tab tab1" and
    len1: "length pv1 = length pv" and
    lm: "as0 \<noteq> [] \<longrightarrow> length ?m = length pv" and
    rows1: "\<forall>i<length pv. length (pv1 ! i) = length (pv ! i)"
    by blast
  have st1: "get_col tab1 ''SpectrumType'' = Inr (StrCol st)"
    using same_except_pv_SpectrumType [OF same1] Cons.prems(4) by simp
  show ?case
  proof (cases "(f, as) = (f0, as0)")
    case True
    then have f: "f0 = f" and as: "as0 = as" by simp_all
    have ne: "as0 \<noteq> []" using Cons.prems(9) as by auto
    with lm have ll: "length st = length pv" by simp
    then have ipv: "i < length pv" using Cons.prems(10) by simp
    have mi: "?m ! i" using Cons.prems(10,11) f by simp
    have fr: "\<forall>x\<in>set as0. pv_free (snd x)" using Cons.prems(5) by (simp add: a)
    from run_assigns_value [OF ra Cons.prems(2) pv1 fr _ _ ipv mi, of s r] Cons.prems(8,9)
    obtain j vals where
      j: "resolve (enumerate_dict (reg f)) s = Inr j" and rv: "r tab = Inr vals" and
      lv: "length vals = length pv" and
      jl: "j < length (pv ! i)" and v: "pv1 ! i ! j = vals ! i"
      by (auto simp: f as)
    have nf: "\<forall>x\<in>set rules. fst x \<noteq> st ! i"
      using Cons.prems(6,11) f by (force simp: a)
    from run_families_frame [OF rest pv1 st1] Cons.prems(3) have
      "\<forall>i<length pv1. i < length st \<longrightarrow>
          (\<forall>j. (\<forall>x\<in>set rules. fst x = st ! i \<longrightarrow>
                  (\<forall>y\<in>set (snd x). resolve (enumerate_dict (reg (fst x))) (fst y) \<noteq> Inr j))
               \<longrightarrow> pv' ! i ! j = pv1 ! i ! j)"
      by auto
    with nf ipv len1 Cons.prems(10) have "pv' ! i ! j = pv1 ! i ! j" by simp
    with j rv jl v lv ll show ?thesis by auto
  next
    case False
    with Cons.prems(7) have mem: "(f, as) \<in> set rules" by (auto simp: a)
    have fr: "\<forall>x\<in>set rules. \<forall>y\<in>set (snd x). pv_free (snd y)"
      using Cons.prems(5) by simp
    have d: "distinct (map fst rules)" using Cons.prems(6) by simp
    from Cons.IH [OF rest pv1 Cons.prems(3) st1 fr d mem Cons.prems(8,9,10,11)]
    obtain j vals where
      j: "resolve (enumerate_dict (reg f)) s = Inr j" and rv: "r tab1 = Inr vals" and
      lv: "length vals = length pv1" and ls: "length st = length pv1" and
      jl: "j < length (pv1 ! i)" and v: "pv' ! i ! j = vals ! i"
      by blast
    have "pv_free r" using Cons.prems(5,9) mem by force
    then have "r tab1 = r tab" using same1 by (simp add: pv_free_def)
    with j rv lv ls jl v len1 rows1 Cons.prems(10) show ?thesis by auto
  qed
qed

lemma enumerate_dict_in_zip:
  "enumerate_dict names k = Some j \<Longrightarrow> (k, j) \<in> set (zip names [0..<length names])"
  unfolding enumerate_dict_def by (drule map_of_SomeD) simp

lemma enumerate_dict_Some:
  assumes "enumerate_dict names k = Some j"
  shows "j < length names \<and> names ! j = k"
proof -
  from enumerate_dict_in_zip [OF assms] obtain n where
    n: "n < length (zip names [0..<length names])" and
    z: "zip names [0..<length names] ! n = (k, j)"
    by (meson in_set_conv_nth)
  from n have n': "n < length names" by simp
  with z have "names ! n = k \<and> n = j" by auto
  with n' show ?thesis by blast
qed

lemma resolve_Literal_eq_iff:
  "(resolve idxs (Literal a) = resolve idxs (Literal b)) = (a = b)"
  by simp

lemma resolve_Par_None:
  "idxs a = None \<Longrightarrow> (resolve idxs (Par a) = resolve idxs (Par b)) = (a = b)"
  by (cases "idxs b") auto

lemma resolve_enumerate_Par_eq_iff:
  "(resolve (enumerate_dict names) (Par a) = resolve (enumerate_dict names) (Par b)) = (a = b)"
proof (cases "enumerate_dict names a")
  case None
  then show ?thesis by (rule resolve_Par_None)
next
  case (Some j)
  note a = this
  show ?thesis
  proof (cases "enumerate_dict names b")
    case None
    with a show ?thesis by auto
  next
    case (Some k)
    have "names ! j = a" "names ! k = b"
      using enumerate_dict_Some [OF a] enumerate_dict_Some [OF Some] by simp_all
    then have "j = k \<longrightarrow> a = b" by auto
    moreover have "a = b \<longrightarrow> j = k" using a Some by auto
    ultimately show ?thesis using a Some by auto
  qed
qed

lemmas fill_blocks = PowerLaw_4FGL_def PLSuperExpCutoff2_4FGL_def PLSuperExpCutoff4_4FGL_def
  LogParabola_4FGL_def

lemmas pv_free_intros = pv_free_col pv_free_lift1 pv_free_lift2 pv_free_times

lemma fill_rules_pv_free:
  "\<forall>x\<in>set (fill_rules cls). \<forall>y\<in>set (snd x). pv_free (snd y)"
  by (cases cls) (simp_all add: fill_blocks pv_free_intros)

lemma fill_rules_distinct_families: "distinct (map fst (fill_rules cls))"
  by (cases cls) (simp_all add: fill_blocks)

lemma fill_rules_distinct_slots:
  "(f, as) \<in> set (fill_rules cls) \<Longrightarrow>
   distinct (map (\<lambda>y. resolve (enumerate_dict names) (fst y)) as)"
  by (cases cls)
     (auto simp add: fill_blocks resolve_enumerate_Par_eq_iff resolve_Literal_eq_iff
           simp del: resolve.simps)

lemma fill_rules_nonempty:
  "cls \<noteq> Catalog4FGLP \<Longrightarrow> cls \<noteq> CatalogFPY \<Longrightarrow> \<exists>x\<in>set (fill_rules cls). snd x \<noteq> []"
  by (cases cls) (simp_all add: fill_blocks)

lemma get_col_init_param_values:
  "get_col (init_param_values tab) ''param_values'' =
     Inr (VecCol (replicate (nrows tab) (replicate 10 NaN)))"
  by (simp add: init_param_values_def get_col_set_col_same)

lemma same_except_pv_init: "same_except_pv tab (init_param_values tab)"
  by (simp add: init_param_values_def same_except_pv_set_col)

lemma fill_params_frame:
  assumes "fill_params cls reg tab = Inr tab'"
    and "get_col tab ''SpectrumType'' = Inr (StrCol st)"
  shows "\<exists>pv. get_col tab' ''param_values'' = Inr (VecCol pv) \<and> same_except_pv tab tab' \<and>
           length pv = length st \<and>
           (\<forall>i<length st. length (pv ! i) = 10 \<and>
              (\<forall>j. (\<forall>x\<in>set (fill_rules cls). fst x = st ! i \<longrightarrow>
                      (\<forall>y\<in>set (snd x). resolve (enumerate_dict (reg (fst x))) (fst y) \<noteq> Inr j))
                   \<longrightarrow> pv ! i ! j = replicate 10 NaN ! j))"
proof -
  let ?t0 = "init_param_values tab"
  let ?pv0 = "replicate (nrows tab) (replicate 10 NaN)"
  from assms(1) have cls: "cls \<noteq> Catalog4FGLP" "cls \<noteq> CatalogFPY"
    and run: "run_families reg (fill_rules cls) ?t0 = Inr tab'"
    by (auto simp: fill_params_def split: if_splits)
  have st0: "get_col ?t0 ''SpectrumType'' = Inr (StrCol st)"
    using same_except_pv_SpectrumType [OF same_except_pv_init] assms(2) by simp
  from run_families_frame [OF run get_col_init_param_values st0] obtain pv where
    g: "get_col tab' ''param_values'' = Inr (VecCol pv)" and
    same: "same_except_pv ?t0 tab'" and
    len: "length pv = length ?pv0" and
    ll: "(\<exists>x\<in>set (fill_rules cls). snd x \<noteq> []) \<longrightarrow> length st = length ?pv0" and
    rows: "\<forall>i<length ?pv0. length (pv ! i) = length (?pv0 ! i) \<and>
              (i < length st \<longrightarrow>
                 (\<forall>j. (\<forall>x\<in>set (fill_rules cls). fst x = st ! i \<longrightarrow>
                         (\<forall>y\<in>set (snd x). resolve (enumerate_dict (reg (fst x))) (fst y) \<noteq> Inr j))
                      \<longrightarrow> pv ! i ! j = ?pv0 ! i ! j))"
    by blast
  from ll fill_rules_nonempty [OF cls] have n: "length st = nrows tab" by simp
  have same': "same_except_pv tab tab'"
    using same_except_pv_init same by (rule same_except_pv_trans)
  have "\<forall>i<length st. length (pv ! i) = 10 \<and>
              (\<forall>j. (\<forall>x\<in>set (fill_rules cls). fst x = st ! i \<longrightarrow>
                      (\<forall>y\<in>set (snd x). resolve (enumerate_dict (reg (fst x))) (fst y) \<noteq> Inr j))
                   \<longrightarrow> pv ! i ! j = replicate 10 NaN ! j)"
  proof (intro allI impI)
    fix i assume i: "i < length st"
    then have i0: "i < length ?pv0" using n by simp
    then have p: "?pv0 ! i = replicate 10 NaN" using n i by simp
    from rows i0 i p show "length (pv ! i) = 10 \<and>
              (\<forall>j. (\<forall>x\<in>set (fill_rules cls). fst x = st ! i \<longrightarrow>
                      (\<forall>y\<in>set (snd x). resolve (enumerate_dict (reg (fst x))) (fst y) \<noteq> Inr j))
                   \<longrightarrow> pv ! i ! j = replicate 10 NaN ! j)"
      by (simp del: replicate.simps nth_replicate)
  qed
  with g same' len n show ?thesis by auto
qed

lemma fill_params_value:
  assumes "fill_params cls reg tab = Inr tab'"
    and "get_col tab' ''param_values'' = Inr (VecCol pv)"
    and "get_col tab ''SpectrumType'' = Inr (StrCol st)"
    and "(f, as) \<in> set (fill_rules cls)"
    and "(s, r) \<in> set as"
    and "i < length st" and "st ! i = f"
  shows "\<exists>j vals. resolve (enumerate_dict (reg f)) s = Inr j \<and> r tab = Inr vals \<and>
           length vals = length st \<and> j < 10 \<and> pv ! i ! j = vals ! i"
proof -
  let ?t0 = "init_param_values tab"
  let ?pv0 = "replicate (nrows tab) (replicate 10 NaN)"
  from assms(1) have run: "run_families reg (fill_rules cls) ?t0 = Inr tab'"
    by (auto simp: fill_params_def split: if_splits)
  have st0: "get_col ?t0 ''SpectrumType'' = Inr (StrCol st)"
    using same_except_pv_SpectrumType [OF same_except_pv_init] assms(3) by simp
  from run_families_value [OF run get_col_init_param_values assms(2) st0 fill_rules_pv_free
      fill_rules_distinct_families assms(4) fill_rules_distinct_slots [OF assms(4)]
      assms(5,6,7)]
  obtain j vals where
    j: "resolve (enumerate_dict (reg f)) s = Inr j" and rv: "r ?t0 = Inr vals" and
    lv: "length vals = length ?pv0" and ls: "length st = length ?pv0" and
    jl: "j < length (?pv0 ! i)" and v: "pv ! i ! j = vals ! i"
    by blast
  have "pv_free r" using fill_rules_pv_free assms(4,5) by force
  then have "r ?t0 = r tab" using same_except_pv_init by (simp add: pv_free_def)
  with rv have rv': "r tab = Inr vals" by simp
  have j10: "j < 10" using jl ls assms(6) by simp
  have lv': "length vals = length st" using lv ls by simp
  from j rv' lv' j10 v show ?thesis by blast
qed

section \<open>Properties of the dispatcher\<close>

text \<open>
  C7. When \<^verbatim>\<open>Catalog.create\<close> is given a path (extension \<^verbatim>\<open>.fits\<close> or
  \<^verbatim>\<open>.fit\<close>) to a readable catalog file whose name tag \<^verbatim>\<open>CDS-NAME\<close> is
  \<^verbatim>\<open>4FGL\<close> and whose \<^verbatim>\<open>VERSION\<close> tag is present but is none of
  \<^verbatim>\<open>v17\<close> ... \<^verbatim>\<open>v35\<close>, it raises the unrecognised-version exception: no
  normalizer is called, so no entity is returned.
\<close>

theorem create_4FGL_version_not_recognised:
  assumes "snd (splitext path) = ''.fits'' \<or> snd (splitext path) = ''.fit''"
    and "fits_open e (if \<not> isfile e path
                      then os_path_join (package_data e) [''catalogs'', path]
                      else path) = Inr h"
    and "header h ''CDS-NAME'' = Some ''4FGL''"
    and "header h ''VERSION'' = Some v"
    and "v \<notin> set [''v17'', ''v18'', ''v19'', ''v20'', ''v21'', ''v22'', ''v23'', ''v24'',
                   ''v25'', ''v26'', ''v27'', ''v28'', ''v29'', ''v30'', ''v31'', ''v32'',
                   ''v33'', ''v34'', ''v35'']"
  shows "create e path =
           Inl (Exception ''Error - 4FGL catalog fits file version not recognised.'')"
  using assms unfolding create_def by (simp add: Let_def)

theorem create_4FGL_version_not_recognised_witness:
  "create
     \<lparr>files = [''/d/gll_psc_v36.fit'' \<mapsto>
                 Fits \<lparr>header = [''CDS-NAME'' \<mapsto> ''4FGL'', ''VERSION'' \<mapsto> ''v36''],
                       columns = [''Source_Name'', ''PLEC_IndexS'']\<rparr>],
      package_data = ''/pkg''\<rparr>
     ''/d/gll_psc_v36.fit'' =
   Inl (Exception ''Error - 4FGL catalog fits file version not recognised.'')"
  by (rule create_4FGL_version_not_recognised
        [where v = "''v36''"
           and h = "\<lparr>header = [''CDS-NAME'' \<mapsto> ''4FGL'', ''VERSION'' \<mapsto> ''v36''],
                      columns = [''Source_Name'', ''PLEC_IndexS'']\<rparr>"])
     (simp_all add: splitext_def rfind_def isfile_def fits_open_def)

text \<open>
  C8. When \<^verbatim>\<open>Catalog.create\<close> is given a release name token (a string whose
  extension is neither \<^verbatim>\<open>.fits\<close> nor \<^verbatim>\<open>.fit\<close>) that is none of 3FGL, 2FHL, FL8Y,
  4FGL, 4FGL-DR2, 4FGL-DR3, 4FGL-DR4, it raises the unrecognized-catalog exception, whose
  message carries the token: no normalizer is called, so no entity is constructed.
\<close>

theorem create_unrecognized_catalog:
  assumes "snd (splitext name) \<noteq> ''.fits''"
    and "snd (splitext name) \<noteq> ''.fit''"
    and "name \<notin> set [''3FGL'', ''2FHL'', ''FL8Y'', ''4FGL'', ''4FGL-DR2'', ''4FGL-DR3'',
                      ''4FGL-DR4'']"
  shows "create e name = Inl (Exception (''Unrecognized catalog '' @ name @ ''.''))"
  using assms unfolding create_def by (simp add: Let_def)

theorem create_unrecognized_catalog_witness:
  "create \<lparr>files = Map.empty, package_data = ''/pkg''\<rparr> ''5FGL'' =
   Inl (Exception ''Unrecognized catalog 5FGL.'')"
  using create_unrecognized_catalog
          [of "''5FGL''" "\<lparr>files = Map.empty, package_data = ''/pkg''\<rparr>"]
  by (simp add: splitext_def rfind_def)

text \<open>
  The four version ranges of the \<^verbatim>\<open>4FGL\<close> branch, one lemma each: when the range's
  signature column is missing the inner \<^verbatim>\<open>if\<close> has no \<^verbatim>\<open>else\<close>, so control leaves
  the \<^verbatim>\<open>if/elif\<close> chain and reaches the \<^verbatim>\<open>NickName\<close> test.
\<close>

lemma create_v17_v22_no_signature:
  assumes ext: "snd (splitext path) = ''.fits'' \<or> snd (splitext path) = ''.fit''"
    and op: "fits_open e (if \<not> isfile e path
                          then os_path_join (package_data e) [''catalogs'', path]
                          else path) = Inr h"
    and nm: "header h ''CDS-NAME'' = Some ''4FGL''"
    and ver: "header h ''VERSION'' = Some v"
    and g: "v \<in> set [''v17'', ''v18'', ''v19'', ''v20'', ''v21'', ''v22'']"
           "''PLEC_Index'' \<notin> set (columns h)"
  shows "create e path =
           Inr (if ''NickName'' \<in> set (columns h) then Catalog4FGLP else CatalogFPY,
                Some (if \<not> isfile e path
                      then os_path_join (package_data e) [''catalogs'', path]
                      else path))"
  unfolding create_def Let_def using ext op nm ver g by simp

lemma create_v23_v27_no_signature:
  assumes ext: "snd (splitext path) = ''.fits'' \<or> snd (splitext path) = ''.fit''"
    and op: "fits_open e (if \<not> isfile e path
                          then os_path_join (package_data e) [''catalogs'', path]
                          else path) = Inr h"
    and nm: "header h ''CDS-NAME'' = Some ''4FGL''"
    and ver: "header h ''VERSION'' = Some v"
    and g: "v \<in> set [''v23'', ''v24'', ''v25'', ''v26'', ''v27'']"
           "''PLEC_Index'' \<notin> set (columns h)"
  shows "create e path =
           Inr (if ''NickName'' \<in> set (columns h) then Catalog4FGLP else CatalogFPY,
                Some (if \<not> isfile e path
                      then os_path_join (package_data e) [''catalogs'', path]
                      else path))"
proof -
  have n1: "v \<notin> set [''v17'', ''v18'', ''v19'', ''v20'', ''v21'', ''v22'']"
    using g(1) by auto
  show ?thesis
    unfolding create_def Let_def using ext op nm ver g n1 by simp
qed

lemma create_v28_v31_no_signature:
  assumes ext: "snd (splitext path) = ''.fits'' \<or> snd (splitext path) = ''.fit''"
    and op: "fits_open e (if \<not> isfile e path
                          then os_path_join (package_data e) [''catalogs'', path]
                          else path) = Inr h"
    and nm: "header h ''CDS-NAME'' = Some ''4FGL''"
    and ver: "header h ''VERSION'' = Some v"
    and g: "v \<in> set [''v28'', ''v29'', ''v30'', ''v31'']"
           "''PLEC_IndexS'' \<notin> set (columns h)"
  shows "create e path =
           Inr (if ''NickName'' \<in> set (columns h) then Catalog4FGLP else CatalogFPY,
                Some (if \<not> isfile e path
                      then os_path_join (package_data e) [''catalogs'', path]
                      else path))"
proof -
  have n1: "v \<notin> set [''v17'', ''v18'', ''v19'', ''v20'', ''v21'', ''v22'']"
    using g(1) by auto
  have n2: "v \<notin> set [''v23'', ''v24'', ''v25'', ''v26'', ''v27'']"
    using g(1) by auto
  show ?thesis
    unfolding create_def Let_def using ext op nm ver g n1 n2 by simp
qed

lemma create_v32_v35_no_signature:
  assumes ext: "snd (splitext path) = ''.fits'' \<or> snd (splitext path) = ''.fit''"
    and op: "fits_open e (if \<not> isfile e path
                          then os_path_join (package_data e) [''catalogs'', path]
                          else path) = Inr h"
    and nm: "header h ''CDS-NAME'' = Some ''4FGL''"
    and ver: "header h ''VERSION'' = Some v"
    and g: "v \<in> set [''v32'', ''v33'', ''v34'', ''v35'']"
           "''PLEC_IndexS'' \<notin> set (columns h)"
  shows "create e path =
           Inr (if ''NickName'' \<in> set (columns h) then Catalog4FGLP else CatalogFPY,
                Some (if \<not> isfile e path
                      then os_path_join (package_data e) [''catalogs'', path]
                      else path))"
proof -
  have n1: "v \<notin> set [''v17'', ''v18'', ''v19'', ''v20'', ''v21'', ''v22'']"
    using g(1) by auto
  have n2: "v \<notin> set [''v23'', ''v24'', ''v25'', ''v26'', ''v27'']"
    using g(1) by auto
  have n3: "v \<notin> set [''v28'', ''v29'', ''v30'', ''v31'']"
    using g(1) by auto
  show ?thesis
    unfolding create_def Let_def using ext op nm ver g n1 n2 n3 by simp
qed

text \<open>
  C10. When \<^verbatim>\<open>Catalog.create\<close> is given a path to a readable catalog file whose
  name tag is \<^verbatim>\<open>4FGL\<close> and whose version tag is in a recognised range, but the
  signature column of that range (\<^verbatim>\<open>PLEC_Index\<close> for v17 to v27,
  \<^verbatim>\<open>PLEC_IndexS\<close> for v28 to v35) is not a column of the primary table, it raises
  nothing and selects none of the 4FGL generation normalizers: it calls
  \<^verbatim>\<open>Catalog4FGLP\<close> on the file when the table has a \<^verbatim>\<open>NickName\<close> column and
  \<^verbatim>\<open>CatalogFPY\<close> otherwise.
\<close>

theorem create_4FGL_signature_column_absent:
  assumes ext: "snd (splitext path) = ''.fits'' \<or> snd (splitext path) = ''.fit''"
    and op: "fits_open e (if \<not> isfile e path
                          then os_path_join (package_data e) [''catalogs'', path]
                          else path) = Inr h"
    and nm: "header h ''CDS-NAME'' = Some ''4FGL''"
    and ver: "header h ''VERSION'' = Some v"
    and sig: "(v \<in> set [''v17'', ''v18'', ''v19'', ''v20'', ''v21'', ''v22'', ''v23'', ''v24'',
                         ''v25'', ''v26'', ''v27'']
               \<and> ''PLEC_Index'' \<notin> set (columns h))
            \<or> (v \<in> set [''v28'', ''v29'', ''v30'', ''v31'', ''v32'', ''v33'', ''v34'', ''v35'']
               \<and> ''PLEC_IndexS'' \<notin> set (columns h))"
  shows "create e path =
           Inr (if ''NickName'' \<in> set (columns h) then Catalog4FGLP else CatalogFPY,
                Some (if \<not> isfile e path
                      then os_path_join (package_data e) [''catalogs'', path]
                      else path))"
proof -
  from sig have
    "(v \<in> set [''v17'', ''v18'', ''v19'', ''v20'', ''v21'', ''v22'']
        \<and> ''PLEC_Index'' \<notin> set (columns h))
     \<or> (v \<in> set [''v23'', ''v24'', ''v25'', ''v26'', ''v27'']
        \<and> ''PLEC_Index'' \<notin> set (columns h))
     \<or> (v \<in> set [''v28'', ''v29'', ''v30'', ''v31'']
        \<and> ''PLEC_IndexS'' \<notin> set (columns h))
     \<or> (v \<in> set [''v32'', ''v33'', ''v34'', ''v35'']
        \<and> ''PLEC_IndexS'' \<notin> set (columns h))"
    by auto
  then show ?thesis
    using create_v17_v22_no_signature [OF ext op nm ver]
          create_v23_v27_no_signature [OF ext op nm ver]
          create_v28_v31_no_signature [OF ext op nm ver]
          create_v32_v35_no_signature [OF ext op nm ver]
    by blast
qed

theorem create_4FGL_signature_column_absent_witness:
  "create
     \<lparr>files = [''/d/gll_psc_v20.fit'' \<mapsto>
                 Fits \<lparr>header = [''CDS-NAME'' \<mapsto> ''4FGL'', ''VERSION'' \<mapsto> ''v20''],
                       columns = [''Source_Name'', ''NickName'']\<rparr>],
      package_data = ''/pkg''\<rparr>
     ''/d/gll_psc_v20.fit'' =
   Inr (Catalog4FGLP, Some ''/d/gll_psc_v20.fit'')"
proof -
  let ?h = "\<lparr>header = [''CDS-NAME'' \<mapsto> ''4FGL'', ''VERSION'' \<mapsto> ''v20''],
             columns = [''Source_Name'', ''NickName'']\<rparr>"
  let ?e = "\<lparr>files = [''/d/gll_psc_v20.fit'' \<mapsto> Fits ?h], package_data = ''/pkg''\<rparr>"
  have "create ?e ''/d/gll_psc_v20.fit'' =
          Inr (if ''NickName'' \<in> set (columns ?h) then Catalog4FGLP else CatalogFPY,
               Some (if \<not> isfile ?e ''/d/gll_psc_v20.fit''
                     then os_path_join (package_data ?e) [''catalogs'', ''/d/gll_psc_v20.fit'']
                     else ''/d/gll_psc_v20.fit''))"
    by (rule create_4FGL_signature_column_absent [where v = "''v20''"])
       (simp_all add: splitext_def rfind_def isfile_def fits_open_def)
  then show ?thesis by (simp add: isfile_def)
qed

end
